theory Spec2Isabelle
  imports Complex_Main "HOL-Library.Finite_Map"
begin

section \<open>JavaScript values\<close>

text \<open>
  The component \<^verbatim>\<open>YouTube.tsx\<close> compares and copies plain JavaScript values. A value is
  a primitive, a function (known only by its identity, a number) or a plain object: a
  finite map from property names to values (its own enumerable properties).

  Numbers are the finite numeric values, compared by value, and \<^verbatim>\<open>NaN\<close>, the one
  number that is not strictly equal to itself. The two infinities would be two more
  values that behave like any finite one under every operation used here.
\<close>

datatype jsval =
    JUndefined
  | JNull
  | JBool bool
  | JNum real
  | JNaN
  | JStr string
  | JFun nat
  | JObj "(string, jsval) fmap"

type_synonym obj = "(string, jsval) fmap"

text \<open>
  \<^verbatim>\<open>a !== b\<close>. On primitives strict inequality is inequality of values, except that
  \<^verbatim>\<open>NaN !== NaN\<close> holds; on functions it is inequality of identities. Every operand of
  \<^verbatim>\<open>!==\<close> in this program is declared a string or a number (\<^verbatim>\<open>videoId\<close>, \<^verbatim>\<open>id\<close>,
  \<^verbatim>\<open>className\<close>, \<^verbatim>\<open>title\<close>, \<^verbatim>\<open>width\<close>, \<^verbatim>\<open>height\<close>, \<^verbatim>\<open>start\<close>, \<^verbatim>\<open>end\<close>), possibly
  \<^verbatim>\<open>undefined\<close> or \<^verbatim>\<open>null\<close>. Objects have no identity in this model: two objects are
  told apart by what they hold, where \<^verbatim>\<open>!==\<close> tells two objects apart even when they
  hold the same.
\<close>

definition strict_neq :: "jsval \<Rightarrow> jsval \<Rightarrow> bool" where
  "strict_neq a b \<longleftrightarrow> a \<noteq> b \<or> a = JNaN"

text \<open>\<^verbatim>\<open>o.k\<close> for a plain object \<open>o\<close>: a key that is not there reads as \<^verbatim>\<open>undefined\<close>.\<close>

definition get :: "obj \<Rightarrow> string \<Rightarrow> jsval" where
  "get ob k = (case fmlookup ob k of None \<Rightarrow> JUndefined | Some v \<Rightarrow> v)"

text \<open>
  \<^verbatim>\<open>v.k\<close> for a value \<open>v\<close> that is neither \<^verbatim>\<open>undefined\<close> nor \<^verbatim>\<open>null\<close>, and a key \<open>k\<close>
  among \<^verbatim>\<open>autoplay\<close>, \<^verbatim>\<open>start\<close>, \<^verbatim>\<open>end\<close>, which no primitive wrapper and no function
  carries.
\<close>

fun member :: "jsval \<Rightarrow> string \<Rightarrow> jsval" where
  "member (JObj m) k = get m k"
| "member _ k = JUndefined"

text \<open>Truthiness, as \<^verbatim>\<open>||\<close> tests it.\<close>

fun truthy :: "jsval \<Rightarrow> bool" where
  "truthy JUndefined = False"
| "truthy JNull = False"
| "truthy (JBool b) = b"
| "truthy (JNum n) = (n \<noteq> 0)"
| "truthy JNaN = False"
| "truthy (JStr s) = (s \<noteq> [])"
| "truthy (JFun f) = True"
| "truthy (JObj m) = True"

section \<open>Deep equality\<close>

text \<open>
  \<^verbatim>\<open>isEqual\<close> is the default export of the package \<^verbatim>\<open>fast-deep-equal\<close>, which is not
  part of this repository. The definitions below follow that function. It can call
  functions found in the values it compares, so it can throw, and its result can depend
  on what those functions return: \<open>call f this\<close> is what the function of identity \<open>f\<close>
  returns, or throws, when called on \<open>this\<close> without arguments.
\<close>

datatype error = TypeError

type_synonym calls = "nat \<Rightarrow> jsval \<Rightarrow> error + jsval"

text \<open>\<^verbatim>\<open>v.call(this)\<close>: calling what is not a function throws a \<^verbatim>\<open>TypeError\<close>.\<close>

fun invoke :: "calls \<Rightarrow> jsval \<Rightarrow> jsval \<Rightarrow> error + jsval" where
  "invoke call (JFun f) this = call f this"
| "invoke call _ this = Inl TypeError"

text \<open>
  \<^verbatim>\<open>a.constructor !== b.constructor\<close>. An object without a key \<^verbatim>\<open>constructor\<close> of its own
  inherits \<^verbatim>\<open>Object\<close>; an own value is taken to be another value than \<^verbatim>\<open>Object\<close>.
\<close>

definition constructor_differs :: "obj \<Rightarrow> obj \<Rightarrow> bool" where
  "constructor_differs a b =
     (case (fmlookup a ''constructor'', fmlookup b ''constructor'') of
        (None, None) \<Rightarrow> False
      | (Some v, Some w) \<Rightarrow> strict_neq v w
      | _ \<Rightarrow> True)"

text \<open>
  \<^verbatim>\<open>ob.k()\<close> for \<open>k\<close> one of \<^verbatim>\<open>valueOf\<close> and \<^verbatim>\<open>toString\<close>: the own property is called
  when there is one, the inherited method returns \<open>inherited\<close>.
\<close>

definition method_result :: "calls \<Rightarrow> string \<Rightarrow> jsval \<Rightarrow> obj \<Rightarrow> error + jsval" where
  "method_result call k inherited ob =
     (case fmlookup ob k of
        None \<Rightarrow> Inr inherited
      | Some f \<Rightarrow> invoke call f (JObj ob))"

text \<open>
  \<^verbatim>\<open>a.valueOf() === b.valueOf()\<close>, the left call first. The inherited \<^verbatim>\<open>valueOf\<close>
  returns the object itself.
\<close>

definition same_valueOf :: "calls \<Rightarrow> obj \<Rightarrow> obj \<Rightarrow> error + bool" where
  "same_valueOf call a b =
     (case method_result call ''valueOf'' (JObj a) a of
        Inl e \<Rightarrow> Inl e
      | Inr x \<Rightarrow>
          (case method_result call ''valueOf'' (JObj b) b of
             Inl e \<Rightarrow> Inl e
           | Inr y \<Rightarrow> Inr (\<not> strict_neq x y)))"

text \<open>
  \<^verbatim>\<open>a.toString() === b.toString()\<close>. The inherited \<^verbatim>\<open>toString\<close> returns
  \<^verbatim>\<open>'[object Object]'\<close>.
\<close>

definition same_toString :: "calls \<Rightarrow> obj \<Rightarrow> obj \<Rightarrow> error + bool" where
  "same_toString call a b =
     (case method_result call ''toString'' (JStr ''[object Object]'') a of
        Inl e \<Rightarrow> Inl e
      | Inr x \<Rightarrow>
          (case method_result call ''toString'' (JStr ''[object Object]'') b of
             Inl e \<Rightarrow> Inl e
           | Inr y \<Rightarrow> Inr (\<not> strict_neq x y)))"

text \<open>\<^verbatim>\<open>equal(a[key], b[key])\<close>, given the comparisons with the values of \<open>a\<close>.\<close>

definition key_result :: "(string, jsval \<Rightarrow> error + bool) fmap \<Rightarrow> obj \<Rightarrow> string \<Rightarrow> error + bool" where
  "key_result cmp b k =
     (case fmlookup cmp k of
        None \<Rightarrow> Inr True
      | Some c \<Rightarrow> c (get b k))"

text \<open>
  Two objects: first their constructors; then, when \<open>a\<close> has a \<^verbatim>\<open>valueOf\<close> or a
  \<^verbatim>\<open>toString\<close> of its own, only what these return; otherwise the number of keys, the
  keys of \<open>a\<close> in \<open>b\<close>, and the values key by key. The library goes through the keys in
  their order and stops at the first comparison that is false or throws; the order of
  keys is not in this model, which answers false when both happen.
\<close>

definition equal_objects ::
  "calls \<Rightarrow> obj \<Rightarrow> obj \<Rightarrow> (string, jsval \<Rightarrow> error + bool) fmap \<Rightarrow> error + bool" where
  "equal_objects call a b cmp =
     (if constructor_differs a b then Inr False
      else if ''valueOf'' |\<in>| fmdom a then same_valueOf call a b
      else if ''toString'' |\<in>| fmdom a then same_toString call a b
      else if fcard (fmdom a) \<noteq> fcard (fmdom b) then Inr False
      else if \<not> fmdom a |\<subseteq>| fmdom b then Inr False
      else if fBall (fmdom a) (\<lambda>k. key_result cmp b k = Inr True) then Inr True
      else if fBex (fmdom a) (\<lambda>k. key_result cmp b k = Inr False) then Inr False
      else Inl TypeError)"

text \<open>
  \<^verbatim>\<open>equal(a, b)\<close>. Primitives and functions are equal when they are the same value
  (\<^verbatim>\<open>NaN\<close> is equal to \<^verbatim>\<open>NaN\<close> here). Two objects are compared as two distinct objects:
  the two snapshots that \<^verbatim>\<open>shouldResetPlayer\<close> compares are new objects, and so are their
  \<^verbatim>\<open>playerVars\<close>. (The library answers true at once for one and the same object; for an
  object without the three keys above that is also the answer here.) Arrays, dates and
  regular expressions are not values of this model.
\<close>

primrec isEqual :: "calls \<Rightarrow> jsval \<Rightarrow> jsval \<Rightarrow> error + bool" where
  "isEqual call JUndefined b = Inr (b = JUndefined)"
| "isEqual call JNull b = Inr (b = JNull)"
| "isEqual call (JBool x) b = Inr (b = JBool x)"
| "isEqual call (JNum x) b = Inr (b = JNum x)"
| "isEqual call JNaN b = Inr (b = JNaN)"
| "isEqual call (JStr s) b = Inr (b = JStr s)"
| "isEqual call (JFun f) b = Inr (b = JFun f)"
| "isEqual call (JObj m) b =
     (case b of
        JObj n \<Rightarrow> equal_objects call m n (fmmap (isEqual call) m)
      | _ \<Rightarrow> Inr False)"

text \<open>Decimal numerals, the property names of the characters of a string.\<close>

fun digits :: "nat \<Rightarrow> string" where
  "digits n =
     (if n < 10 then [char_of (48 + n)]
      else digits (n div 10) @ [char_of (48 + n mod 10)])"

declare digits.simps [simp del]

text \<open>
  \<^verbatim>\<open>{...v}\<close>: the own enumerable properties that object spread copies. \<^verbatim>\<open>undefined\<close>,
  \<^verbatim>\<open>null\<close>, numbers, booleans and functions contribute none; a string contributes its
  characters under their indices.
\<close>

fun spread :: "jsval \<Rightarrow> obj" where
  "spread (JObj m) = m"
| "spread (JStr s) = fmap_of_list (zip (map digits [0..<length s]) (map (\<lambda>c. JStr [c]) s))"
| "spread _ = fmempty"

section \<open>Props\<close>

text \<open>
  \<^verbatim>\<open>YouTubeProps\<close>. The props declared \<^verbatim>\<open>string\<close> hold a string, \<^verbatim>\<open>undefined\<close> or
  \<^verbatim>\<open>null\<close> (\<^verbatim>\<open>updateVideo\<close> tests \<^verbatim>\<open>videoId\<close> for both). The callbacks are functions;
  \<open>None\<close> is a callback that is \<^verbatim>\<open>undefined\<close> or \<^verbatim>\<open>null\<close>, which \<^verbatim>\<open>?.()\<close> skips.
  \<^verbatim>\<open>opts\<close> is an object (\<^verbatim>\<open>defaultProps\<close> replaces an omitted one by \<^verbatim>\<open>{}\<close>); what it
  holds is not constrained.
\<close>

datatype strprop = Undefined | Null | Str string

fun js_of :: "strprop \<Rightarrow> jsval" where
  "js_of Undefined = JUndefined"
| "js_of Null = JNull"
| "js_of (Str s) = JStr s"

type_synonym handler = nat

record YouTubeProps =
  videoId :: strprop
  id_prop :: strprop
  className :: strprop
  containerClassName :: strprop
  containerStyle :: obj
  title :: strprop
  loading :: strprop
  opts :: obj
  onReady :: "handler option"
  onError :: "handler option"
  onPlay :: "handler option"
  onPause :: "handler option"
  onEnd :: "handler option"
  onStateChange :: "handler option"
  onPlaybackRateChange :: "handler option"
  onPlaybackQualityChange :: "handler option"

section \<open>The three predicates of an update\<close>

text \<open>\<^verbatim>\<open>opts.playerVars || {}\<close>\<close>

definition vars_of :: "obj \<Rightarrow> jsval" where
  "vars_of os = (let v = get os ''playerVars'' in if truthy v then v else JObj fmempty)"

definition shouldUpdateVideo :: "YouTubeProps \<Rightarrow> YouTubeProps \<Rightarrow> bool" where
  "shouldUpdateVideo prevProps props =
     (if strict_neq (js_of (videoId prevProps)) (js_of (videoId props)) then True
      else
        let prevVars = vars_of (opts prevProps);
            vars = vars_of (opts props)
        in strict_neq (member prevVars ''start'') (member vars ''start'')
           \<or> strict_neq (member prevVars ''end'') (member vars ''end''))"

definition filterResetOptions :: "obj \<Rightarrow> obj" where
  "filterResetOptions os =
     fmupd ''playerVars''
       (JObj (fmupd ''end'' (JNum 0)
               (fmupd ''start'' (JNum 0)
                 (fmupd ''autoplay'' (JNum 0)
                   (spread (get os ''playerVars''))))))
       (fmupd ''width'' (JNum 0)
         (fmupd ''height'' (JNum 0) os))"

text \<open>The inner object literal of \<^verbatim>\<open>filterResetOptions\<close>, on its own.\<close>

definition neutral_vars :: "obj \<Rightarrow> obj" where
  "neutral_vars os =
     fmupd ''end'' (JNum 0)
       (fmupd ''start'' (JNum 0)
         (fmupd ''autoplay'' (JNum 0)
           (spread (get os ''playerVars''))))"

definition shouldResetPlayer :: "calls \<Rightarrow> YouTubeProps \<Rightarrow> YouTubeProps \<Rightarrow> error + bool" where
  "shouldResetPlayer call prevProps props =
     (if strict_neq (js_of (videoId prevProps)) (js_of (videoId props)) then Inr True
      else
        case isEqual call (JObj (filterResetOptions (opts prevProps)))
                          (JObj (filterResetOptions (opts props))) of
          Inl e \<Rightarrow> Inl e
        | Inr same \<Rightarrow> Inr (\<not> same))"

definition shouldUpdatePlayer :: "YouTubeProps \<Rightarrow> YouTubeProps \<Rightarrow> bool" where
  "shouldUpdatePlayer prevProps props \<longleftrightarrow>
     strict_neq (js_of (id_prop prevProps)) (js_of (id_prop props))
     \<or> strict_neq (js_of (className prevProps)) (js_of (className props))
     \<or> strict_neq (get (opts prevProps) ''width'') (get (opts props) ''width'')
     \<or> strict_neq (get (opts prevProps) ''height'') (get (opts props) ''height'')
     \<or> strict_neq (js_of (title prevProps)) (js_of (title props))"

section \<open>The component\<close>

text \<open>
  \<^verbatim>\<open>defaultProps\<close>: what an omitted prop is replaced by. The eight default callbacks are
  eight functions \<^verbatim>\<open>() => {}\<close>, here the identities 0 to 7.
\<close>

definition defaultProps :: YouTubeProps where
  "defaultProps =
     \<lparr> videoId = Str [], id_prop = Str [], className = Str [],
       containerClassName = Str [], containerStyle = fmempty, title = Str [],
       loading = Undefined, opts = fmempty,
       onReady = Some 0, onError = Some 1, onPlay = Some 2, onPause = Some 3,
       onEnd = Some 4, onStateChange = Some 5, onPlaybackRateChange = Some 6,
       onPlaybackQualityChange = Some 7 \<rparr>"

text \<open>The static table \<^verbatim>\<open>YouTube.PlayerState\<close>.\<close>

definition UNSTARTED :: real where "UNSTARTED = - 1"
definition ENDED :: real where "ENDED = 0"
definition PLAYING :: real where "PLAYING = 1"
definition PAUSED :: real where "PAUSED = 2"
definition BUFFERING :: real where "BUFFERING = 3"
definition CUED :: real where "CUED = 5"

text \<open>
  The player handle belongs to the package \<^verbatim>\<open>youtube-player\<close>. The model keeps what the
  component gives it: the mount element and the options of the factory call, and the
  method calls made on the handle, in order.
\<close>

datatype listener =
    OnPlayerReady
  | OnPlayerError
  | OnPlayerStateChange
  | OnPlayerPlaybackRateChange
  | OnPlayerPlaybackQualityChange

datatype call =
    On string listener
  | Destroy
  | GetIframe
  | StopVideo
  | LoadVideoById obj
  | CueVideoById obj

type_synonym element = nat

record player =
  mount :: "element option"
  player_opts :: obj
  calls :: "call list"

text \<open>
  What a \<^verbatim>\<open>.then(...)\<close> leaves to run once its promise resolves: \<^verbatim>\<open>createPlayer\<close> after
  \<^verbatim>\<open>destroy()\<close>, the writes of the iframe's attributes after \<^verbatim>\<open>getIframe()\<close>.
\<close>

datatype continuation = ThenCreatePlayer | ThenSetIframeAttributes

text \<open>
  An instance: its props, its two fields \<^verbatim>\<open>container\<close> and \<^verbatim>\<open>internalPlayer\<close>
  (\<open>None\<close> is \<^verbatim>\<open>null\<close>), and around it whether the global \<^verbatim>\<open>document\<close> exists, the calls
  of the factory \<^verbatim>\<open>youTubePlayer\<close> so far and the continuations waiting.
\<close>

record component =
  props :: YouTubeProps
  container :: "element option"
  internalPlayer :: "player option"
  document_defined :: bool
  factory_calls :: "(element option \<times> obj) list"
  pending :: "continuation list"

text \<open>The constructor, in an environment with or without \<^verbatim>\<open>document\<close>.\<close>

definition new_component :: "YouTubeProps \<Rightarrow> bool \<Rightarrow> component" where
  "new_component p doc =
     \<lparr> props = p, container = None, internalPlayer = None, document_defined = doc,
       factory_calls = [], pending = [] \<rparr>"

definition refContainer :: "element option \<Rightarrow> component \<Rightarrow> component" where
  "refContainer c s = s\<lparr>container := c\<rparr>"

text \<open>\<^verbatim>\<open>this.internalPlayer?.m(...)\<close>: the call is made when there is a handle.\<close>

definition player_call :: "call \<Rightarrow> component \<Rightarrow> component" where
  "player_call c s =
     (case internalPlayer s of
        None \<Rightarrow> s
      | Some pl \<Rightarrow> s\<lparr>internalPlayer := Some (pl\<lparr>calls := calls pl @ [c]\<rparr>)\<rparr>)"

text \<open>\<^verbatim>\<open>this.internalPlayer?.m().then(k)\<close>\<close>

definition player_call_then :: "call \<Rightarrow> continuation \<Rightarrow> component \<Rightarrow> component" where
  "player_call_then c k s =
     (case internalPlayer s of
        None \<Rightarrow> s
      | Some pl \<Rightarrow>
          s\<lparr>internalPlayer := Some (pl\<lparr>calls := calls pl @ [c]\<rparr>),
            pending := pending s @ [k]\<rparr>)"

definition createPlayer :: "component \<Rightarrow> component" where
  "createPlayer s =
     (if \<not> document_defined s then s
      else
        let playerOpts = fmupd ''videoId'' (js_of (videoId (props s))) (opts (props s));
            pl = \<lparr> mount = container s, player_opts = playerOpts, calls = [] \<rparr>
        in s\<lparr> factory_calls := factory_calls s @ [(container s, playerOpts)],
              internalPlayer :=
                Some (pl\<lparr>calls :=
                  [On ''ready'' OnPlayerReady,
                   On ''error'' OnPlayerError,
                   On ''stateChange'' OnPlayerStateChange,
                   On ''playbackRateChange'' OnPlayerPlaybackRateChange,
                   On ''playbackQualityChange'' OnPlayerPlaybackQualityChange]\<rparr>) \<rparr>)"

definition componentDidMount :: "component \<Rightarrow> component" where
  "componentDidMount s = createPlayer s"

definition componentWillUnmount :: "component \<Rightarrow> component" where
  "componentWillUnmount s = player_call Destroy s"

definition resetPlayer :: "component \<Rightarrow> component" where
  "resetPlayer s = player_call_then Destroy ThenCreatePlayer s"

definition updatePlayer :: "component \<Rightarrow> component" where
  "updatePlayer s = player_call_then GetIframe ThenSetIframeAttributes s"

definition getInternalPlayer :: "component \<Rightarrow> player option" where
  "getInternalPlayer s = internalPlayer s"

subsection \<open>updateVideo\<close>

text \<open>
  \<^verbatim>\<open>v.k\<close> for any value: reading a property of \<^verbatim>\<open>undefined\<close> or \<^verbatim>\<open>null\<close> throws a
  \<^verbatim>\<open>TypeError\<close>.
\<close>

fun read_prop :: "jsval \<Rightarrow> string \<Rightarrow> error + jsval" where
  "read_prop JUndefined k = Inl TypeError"
| "read_prop JNull k = Inl TypeError"
| "read_prop v k = Inr (member v k)"

text \<open>
  \<^verbatim>\<open>k in v\<close>, for the keys \<^verbatim>\<open>start\<close> and \<^verbatim>\<open>end\<close>: a \<^verbatim>\<open>TypeError\<close> unless \<open>v\<close> is an
  object or a function.
\<close>

fun in_op :: "string \<Rightarrow> jsval \<Rightarrow> error + bool" where
  "in_op k (JObj m) = Inr (k |\<in>| fmdom m)"
| "in_op k (JFun f) = Inr False"
| "in_op k _ = Inl TypeError"

text \<open>
  The queueing options of \<^verbatim>\<open>updateVideo\<close>: the flag \<^verbatim>\<open>autoplay\<close> and the object
  \<^verbatim>\<open>opts\<close> it builds, or the error thrown on the way.
\<close>

definition queueing_options :: "YouTubeProps \<Rightarrow> error + (bool \<times> obj)" where
  "queueing_options p =
     (let os0 = fmupd ''videoId'' (js_of (videoId p)) fmempty in
      if ''playerVars'' |\<in>| fmdom (opts p) then
        let pv = get (opts p) ''playerVars'' in
        case read_prop pv ''autoplay'' of
          Inl e \<Rightarrow> Inl e
        | Inr a \<Rightarrow>
            (case in_op ''start'' pv of
               Inl e \<Rightarrow> Inl e
             | Inr has_start \<Rightarrow>
                 let os1 = (if has_start then fmupd ''startSeconds'' (member pv ''start'') os0
                            else os0)
                 in (case in_op ''end'' pv of
                       Inl e \<Rightarrow> Inl e
                     | Inr has_end \<Rightarrow>
                         Inr (a = JNum 1,
                              if has_end then fmupd ''endSeconds'' (member pv ''end'') os1
                              else os1)))
      else Inr (False, os0))"

definition updateVideo :: "component \<Rightarrow> error + component" where
  "updateVideo s =
     (if videoId (props s) = Undefined \<or> videoId (props s) = Null
      then Inr (player_call StopVideo s)
      else
        case queueing_options (props s) of
          Inl e \<Rightarrow> Inl e
        | Inr (autoplay, os) \<Rightarrow>
            if autoplay then Inr (player_call (LoadVideoById os) s)
            else Inr (player_call (CueVideoById os) s))"

definition componentDidUpdate ::
  "calls \<Rightarrow> YouTubeProps \<Rightarrow> component \<Rightarrow> error + component" where
  "componentDidUpdate call prevProps s =
     (let s1 = (if shouldUpdatePlayer prevProps (props s) then updatePlayer s else s) in
      case shouldResetPlayer call prevProps (props s1) of
        Inl e \<Rightarrow> Inl e
      | Inr reset \<Rightarrow>
          let s2 = (if reset then resetPlayer s1 else s1)
          in if shouldUpdateVideo prevProps (props s2) then updateVideo s2 else Inr s2)"

subsection \<open>Event relay\<close>

text \<open>
  An event of the player carries \<^verbatim>\<open>event.data\<close>. A relay returns the callbacks it
  called, in order, each with the event it was given.
\<close>

record event =
  data :: jsval

text \<open>\<^verbatim>\<open>f?.(event)\<close>\<close>

fun optional_call :: "handler option \<Rightarrow> event \<Rightarrow> (handler \<times> event) list" where
  "optional_call None e = []"
| "optional_call (Some f) e = [(f, e)]"

definition onPlayerReady :: "YouTubeProps \<Rightarrow> event \<Rightarrow> (handler \<times> event) list" where
  "onPlayerReady p e = optional_call (onReady p) e"

definition onPlayerError :: "YouTubeProps \<Rightarrow> event \<Rightarrow> (handler \<times> event) list" where
  "onPlayerError p e = optional_call (onError p) e"

definition onPlayerStateChange :: "YouTubeProps \<Rightarrow> event \<Rightarrow> (handler \<times> event) list" where
  "onPlayerStateChange p e =
     optional_call (onStateChange p) e @
     (if data e = JNum ENDED then optional_call (onEnd p) e
      else if data e = JNum PLAYING then optional_call (onPlay p) e
      else if data e = JNum PAUSED then optional_call (onPause p) e
      else [])"

definition onPlayerPlaybackRateChange :: "YouTubeProps \<Rightarrow> event \<Rightarrow> (handler \<times> event) list" where
  "onPlayerPlaybackRateChange p e = optional_call (onPlaybackRateChange p) e"

definition onPlayerPlaybackQualityChange :: "YouTubeProps \<Rightarrow> event \<Rightarrow> (handler \<times> event) list" where
  "onPlayerPlaybackQualityChange p e = optional_call (onPlaybackQualityChange p) e"

section \<open>Readings and examples used in the statements\<close>

text \<open>
  The player variables of an options object, as an object: the properties that
  \<^verbatim>\<open>{...opts.playerVars}\<close> copies, none when \<^verbatim>\<open>playerVars\<close> is absent or \<^verbatim>\<open>undefined\<close>.
\<close>

definition player_vars :: "obj \<Rightarrow> obj" where
  "player_vars os = spread (get os ''playerVars'')"

text \<open>
  A value without the keys that \<^verbatim>\<open>fast-deep-equal\<close> treats apart: no object in it, at
  any depth, has a key \<^verbatim>\<open>constructor\<close>, \<^verbatim>\<open>valueOf\<close> or \<^verbatim>\<open>toString\<close> of its own.
\<close>

primrec plain :: "jsval \<Rightarrow> bool" where
  "plain JUndefined = True"
| "plain JNull = True"
| "plain (JBool b) = True"
| "plain (JNum x) = True"
| "plain JNaN = True"
| "plain (JStr s) = True"
| "plain (JFun f) = True"
| "plain (JObj m) =
     (''constructor'' |\<notin>| fmdom m \<and> ''valueOf'' |\<notin>| fmdom m \<and> ''toString'' |\<notin>| fmdom m
      \<and> fmpred (\<lambda>k p. p) (fmmap plain m))"

text \<open>
  A component mounted in a browser: constructed, given its container by React, then
  \<^verbatim>\<open>componentDidMount\<close>.
\<close>

definition mounted :: "YouTubeProps \<Rightarrow> component" where
  "mounted p = componentDidMount (refContainer (Some 0) (new_component p True))"

text \<open>The props \<^verbatim>\<open>{videoId: 'abc', opts: {playerVars: pv}}\<close>, the rest by default.\<close>

definition with_vars :: "obj \<Rightarrow> YouTubeProps" where
  "with_vars pv =
     defaultProps\<lparr>videoId := Str ''abc'', opts := fmupd ''playerVars'' (JObj pv) fmempty\<rparr>"

text \<open>An environment in which every function returns \<^verbatim>\<open>undefined\<close>.\<close>

definition no_calls :: calls where
  "no_calls f this = Inr JUndefined"

section \<open>Properties\<close>

subsection \<open>Strict inequality and property reads\<close>

lemmas eval_defs = mounted_def componentDidMount_def refContainer_def new_component_def
  createPlayer_def defaultProps_def player_vars_def get_def Let_def

lemma strict_neq_js_of: "strict_neq (js_of a) (js_of b) \<longleftrightarrow> a \<noteq> b"
  by (cases a; cases b) (simp_all add: strict_neq_def)

lemma strict_neq_same: "strict_neq a a \<longleftrightarrow> a = JNaN"
  by (simp add: strict_neq_def)

lemma fmdrop_eq_lookup:
  assumes "fmdrop a m = fmdrop a n" and "k \<noteq> a"
  shows "fmlookup m k = fmlookup n k"
proof -
  have "fmlookup (fmdrop a m) k = fmlookup (fmdrop a n) k"
    using assms(1) by simp
  then show ?thesis using assms(2) by simp
qed

lemma fmdrop2_eq_lookup:
  assumes "fmdrop a (fmdrop b m) = fmdrop a (fmdrop b n)" and "k \<noteq> a" and "k \<noteq> b"
  shows "fmlookup m k = fmlookup n k"
proof -
  have "fmlookup (fmdrop a (fmdrop b m)) k = fmlookup (fmdrop a (fmdrop b n)) k"
    using assms(1) by simp
  then show ?thesis using assms(2,3) by simp
qed

text \<open>
  The index of a character is never \<^verbatim>\<open>start\<close> or \<^verbatim>\<open>end\<close>: a numeral ends in a digit.
\<close>


lemma last_digits: "last (digits n) = char_of (48 + n mod 10)"
  by (subst digits.simps) simp

lemma of_char_last_digits: "of_char (last (digits n)) = 48 + n mod 10"
proof -
  have "n mod 10 < 10" by simp
  then have "(48 + n mod 10) mod 256 = 48 + n mod 10" by simp
  then show ?thesis by (simp add: last_digits)
qed

lemma digits_neq_start: "digits n \<noteq> ''start''"
proof
  assume "digits n = ''start''"
  then have "(of_char (last (digits n)) :: nat) = of_char (last ''start'')" by simp
  then have "48 + n mod 10 = (116::nat)" by (simp add: of_char_last_digits)
  then show False by presburger
qed

lemma digits_neq_end: "digits n \<noteq> ''end''"
proof
  assume "digits n = ''end''"
  then have "(of_char (last (digits n)) :: nat) = of_char (last ''end'')" by simp
  then have "48 + n mod 10 = (100::nat)" by (simp add: of_char_last_digits)
  then show False by presburger
qed

lemma lookup_spread_string:
  assumes "k = ''start'' \<or> k = ''end''"
  shows "fmlookup (spread (JStr s)) k = None"
proof -
  have "k \<notin> set (map digits [0..<length s])"
    using assms digits_neq_start digits_neq_end by auto
  then have "k \<notin> fst ` set (zip (map digits [0..<length s]) (map (\<lambda>c. JStr [c]) s))"
    by (auto dest: set_zip_leftD)
  then show ?thesis
    by (simp add: fmlookup_of_list map_of_eq_None_iff)
qed

lemma member_vars_of:
  assumes "k = ''start'' \<or> k = ''end''"
  shows "member (vars_of os) k = get (spread (get os ''playerVars'')) k"
proof (cases "get os ''playerVars''")
  case (JStr s)
  then show ?thesis
    using lookup_spread_string [OF assms, of s]
    by (cases "s = []") (simp_all add: vars_of_def get_def)
qed (simp_all add: vars_of_def get_def)



lemma lookup_filterResetOptions_other:
  "k \<noteq> ''width'' \<Longrightarrow> k \<noteq> ''height'' \<Longrightarrow> k \<noteq> ''playerVars'' \<Longrightarrow>
   fmlookup (filterResetOptions os) k = fmlookup os k"
  by (simp add: filterResetOptions_def)

lemma lookup_filterResetOptions_vars:
  "fmlookup (filterResetOptions os) ''playerVars'' = Some (JObj (neutral_vars os))"
  by (simp add: filterResetOptions_def neutral_vars_def)

lemma lookup_neutral_vars_other:
  "k \<noteq> ''autoplay'' \<Longrightarrow> k \<noteq> ''start'' \<Longrightarrow> k \<noteq> ''end'' \<Longrightarrow>
   fmlookup (neutral_vars os) k = fmlookup (spread (get os ''playerVars'')) k"
  by (simp add: neutral_vars_def)

lemma neutral_vars_eqI:
  assumes "\<And>k. k \<noteq> ''autoplay'' \<Longrightarrow> k \<noteq> ''start'' \<Longrightarrow> k \<noteq> ''end'' \<Longrightarrow>
     fmlookup (spread (get a ''playerVars'')) k = fmlookup (spread (get b ''playerVars'')) k"
  shows "neutral_vars a = neutral_vars b"
proof (rule fmap_ext)
  fix k
  show "fmlookup (neutral_vars a) k = fmlookup (neutral_vars b) k"
    using assms [of k] by (simp add: neutral_vars_def)
qed

lemma filterResetOptions_eqI:
  assumes top: "\<And>k. k \<noteq> ''width'' \<Longrightarrow> k \<noteq> ''height'' \<Longrightarrow> k \<noteq> ''playerVars'' \<Longrightarrow>
     fmlookup a k = fmlookup b k"
    and vars: "\<And>k. k \<noteq> ''autoplay'' \<Longrightarrow> k \<noteq> ''start'' \<Longrightarrow> k \<noteq> ''end'' \<Longrightarrow>
     fmlookup (spread (get a ''playerVars'')) k = fmlookup (spread (get b ''playerVars'')) k"
  shows "filterResetOptions a = filterResetOptions b"
proof (rule fmap_ext)
  fix k
  have nv: "neutral_vars a = neutral_vars b"
    using vars by (rule neutral_vars_eqI)
  show "fmlookup (filterResetOptions a) k = fmlookup (filterResetOptions b) k"
  proof (cases "k = ''width'' \<or> k = ''height'' \<or> k = ''playerVars''")
    case True
    then show ?thesis
      using nv by (auto simp add: filterResetOptions_def neutral_vars_def)
  next
    case False
    then show ?thesis
      using top [of k] by (simp add: lookup_filterResetOptions_other)
  qed
qed

lemma filterResetOptions_eqD_top:
  assumes "filterResetOptions a = filterResetOptions b"
    and "k \<noteq> ''width''" "k \<noteq> ''height''" "k \<noteq> ''playerVars''"
  shows "fmlookup a k = fmlookup b k"
proof -
  have "fmlookup (filterResetOptions a) k = fmlookup (filterResetOptions b) k"
    using assms(1) by simp
  then show ?thesis
    using assms(2-4) by (simp add: lookup_filterResetOptions_other)
qed

lemma filterResetOptions_eqD_vars:
  assumes "filterResetOptions a = filterResetOptions b"
    and "k \<noteq> ''autoplay''" "k \<noteq> ''start''" "k \<noteq> ''end''"
  shows "fmlookup (spread (get a ''playerVars'')) k = fmlookup (spread (get b ''playerVars'')) k"
proof -
  have "fmlookup (filterResetOptions a) ''playerVars'' = fmlookup (filterResetOptions b) ''playerVars''"
    using assms(1) by simp
  then have "neutral_vars a = neutral_vars b"
    by (simp add: lookup_filterResetOptions_vars)
  then have "fmlookup (neutral_vars a) k = fmlookup (neutral_vars b) k"
    by simp
  then show ?thesis
    using assms(2-4) by (simp add: lookup_neutral_vars_other)
qed


subsection \<open>Deep equality of plain values\<close>


lemma plain_value:
  assumes "plain (JObj m)" and "fmlookup m k = Some v"
  shows "plain v"
  using assms by (auto simp add: fmpred_iff)

lemma plain_get:
  assumes "plain (JObj m)"
  shows "plain (get m k)"
  using assms plain_value [OF assms, of k]
  by (cases "fmlookup m k") (simp_all add: get_def)

lemma equal_objects_plain:
  assumes pm: "plain (JObj m)" and pn: "plain (JObj n)"
    and cmp: "\<And>k v. fmlookup m k = Some v \<Longrightarrow> key_result cmp n k = Inr (v = get n k)"
  shows "equal_objects call m n cmp = Inr (m = n)"
proof -
  have "fmlookup m ''constructor'' = None" and "fmlookup n ''constructor'' = None"
    using pm pn by (simp_all add: fmdom_notD)
  then have ctor: "\<not> constructor_differs m n"
    by (simp add: constructor_differs_def)
  have quirk: "''valueOf'' |\<notin>| fmdom m" "''toString'' |\<notin>| fmdom m"
    using pm by simp_all
  show ?thesis
  proof (cases "fcard (fmdom m) = fcard (fmdom n) \<and> fmdom m |\<subseteq>| fmdom n")
    case False
    then have "fmdom m \<noteq> fmdom n" by auto
    then have "m \<noteq> n" by auto
    then show ?thesis
      using False ctor quirk by (auto simp add: equal_objects_def)
  next
    case True
    then have dom: "fmdom m = fmdom n"
      by (simp add: fcard_seteq)
    have each: "key_result cmp n k = Inr (fmlookup m k = fmlookup n k)"
      if inm: "k |\<in>| fmdom m" for k
    proof -
      obtain v where v: "fmlookup m k = Some v"
        using inm by (auto simp add: fmlookup_dom_iff)
      obtain w where w: "fmlookup n k = Some w"
        using inm dom by (auto simp add: fmlookup_dom_iff)
      show ?thesis
        using cmp [OF v] v w by (simp add: get_def)
    qed
    show ?thesis
    proof (cases "m = n")
      case same: True
      have "fBall (fmdom m) (\<lambda>k. key_result cmp n k = Inr True)"
        using each same by auto
      then show ?thesis
        using True ctor quirk same by (simp add: equal_objects_def)
    next
      case diff: False
      have "\<exists>k. fmlookup m k \<noteq> fmlookup n k"
        using diff by (auto intro: fmap_ext)
      then obtain k where k: "fmlookup m k \<noteq> fmlookup n k" ..
      have kin: "k |\<in>| fmdom m"
      proof (rule ccontr)
        assume "k |\<notin>| fmdom m"
        then have "fmlookup m k = None" "fmlookup n k = None"
          using dom by (auto dest: fmdom_notD)
        with k show False by simp
      qed
      have no: "key_result cmp n k = Inr False"
        using each [OF kin] k by simp
      have "key_result cmp n k \<noteq> Inr True"
        using no by simp
      with kin have nall: "\<not> fBall (fmdom m) (\<lambda>k. key_result cmp n k = Inr True)"
        by blast
      have ex: "fBex (fmdom m) (\<lambda>k. key_result cmp n k = Inr False)"
        using kin no by auto
      show ?thesis
        using True ctor quirk diff nall ex by (simp add: equal_objects_def)
    qed
  qed
qed

lemma isEqual_plain:
  "plain a \<Longrightarrow> plain b \<Longrightarrow> isEqual call a b = Inr (a = b)"
proof (induction a arbitrary: b)
  case (JObj m)
  show ?case
  proof (cases b)
    case (JObj n)
    have "equal_objects call m n (fmmap (isEqual call) m) = Inr (m = n)"
    proof (rule equal_objects_plain)
      show "plain (JObj m)" by fact
      show "plain (JObj n)" using JObj.prems(2) JObj by simp
    next
      fix k v
      assume v: "fmlookup m k = Some v"
      have "v \<in> fmran' m" using v by (rule fmran'I)
      moreover have "plain v" using JObj.prems(1) v by (rule plain_value)
      moreover have "plain (get n k)"
        using JObj.prems(2) JObj by (simp only: plain_get)
      ultimately have "isEqual call v (get n k) = Inr (v = get n k)"
        by (rule JObj.IH)
      then show "key_result (fmmap (isEqual call) m) n k = Inr (v = get n k)"
        using v by (simp add: key_result_def)
    qed
    then show ?thesis using JObj by simp
  qed simp_all
qed auto


subsection \<open>The snapshots of plain options\<close>


lemma digits_neq_word:
  assumes "(58::nat) \<le> of_char (last k)"
  shows "digits n \<noteq> k"
proof
  assume "digits n = k"
  then have "(of_char (last (digits n)) :: nat) = of_char (last k)" by simp
  then have "48 + n mod 10 = (of_char (last k) :: nat)" by (simp add: of_char_last_digits)
  moreover have "n mod 10 < 10" by simp
  ultimately show False using assms by linarith
qed

lemma plain_fmupd:
  assumes "plain (JObj m)" and "plain v"
    and "k \<noteq> ''constructor''" "k \<noteq> ''valueOf''" "k \<noteq> ''toString''"
  shows "plain (JObj (fmupd k v m))"
  using assms by (auto simp add: fmpred_iff)

lemma plain_empty: "plain (JObj fmempty)"
  by simp

lemma plain_spread_string: "plain (JObj (spread (JStr s)))"
proof -
  let ?xs = "zip (map digits [0..<length s]) (map (\<lambda>c. JStr [c]) s)"
  have key: "k \<notin> fst ` set ?xs" if "(58::nat) \<le> of_char (last k)" for k
  proof
    assume "k \<in> fst ` set ?xs"
    then have "k \<in> set (map digits [0..<length s])"
      by (auto dest: set_zip_leftD)
    then show False using digits_neq_word [OF that] by auto
  qed
  have no: "k |\<notin>| fmdom (fmap_of_list ?xs)" if "(58::nat) \<le> of_char (last k)" for k
  proof (rule fmdom_notI)
    show "fmlookup (fmap_of_list ?xs) k = None"
      using key [OF that] by (simp add: fmlookup_of_list map_of_eq_None_iff)
  qed
  have vals: "plain v" if "fmlookup (fmap_of_list ?xs) k = Some v" for k v
  proof -
    have "(k, v) \<in> set ?xs"
      using that by (simp add: fmlookup_of_list map_of_SomeD)
    then have "v \<in> set (map (\<lambda>c. JStr [c]) s)"
      by (rule set_zip_rightD)
    then show ?thesis by auto
  qed
  have "fmpred (\<lambda>k v. plain v) (fmap_of_list ?xs)"
    unfolding fmpred_iff using vals by blast
  moreover have "''constructor'' |\<notin>| fmdom (fmap_of_list ?xs)"
    and "''valueOf'' |\<notin>| fmdom (fmap_of_list ?xs)"
    and "''toString'' |\<notin>| fmdom (fmap_of_list ?xs)"
    by (rule no, simp)+
  ultimately have "plain (JObj (fmap_of_list ?xs))"
    by simp
  then show ?thesis
    by (simp only: spread.simps)
qed

lemma plain_spread:
  assumes "plain v"
  shows "plain (JObj (spread v))"
proof (cases v)
  case (JStr s)
  then show ?thesis by (simp only: plain_spread_string)
next
  case (JObj m)
  then show ?thesis using assms by simp
qed simp_all

lemma plain_filterResetOptions:
  assumes "plain (JObj os)"
  shows "plain (JObj (filterResetOptions os))"
proof -
  have zero: "plain (JNum 0)" by simp
  have "plain (JObj (spread (get os ''playerVars'')))"
    using assms by (intro plain_spread plain_get)
  then have "plain (JObj (fmupd ''autoplay'' (JNum 0) (spread (get os ''playerVars''))))"
    using zero by (rule plain_fmupd) simp_all
  then have "plain (JObj (fmupd ''start'' (JNum 0)
      (fmupd ''autoplay'' (JNum 0) (spread (get os ''playerVars'')))))"
    using zero by (rule plain_fmupd) simp_all
  then have vars: "plain (JObj (neutral_vars os))"
    unfolding neutral_vars_def using zero by (rule plain_fmupd) simp_all
  have "plain (JObj (fmupd ''height'' (JNum 0) os))"
    using assms zero by (rule plain_fmupd) simp_all
  then have "plain (JObj (fmupd ''width'' (JNum 0) (fmupd ''height'' (JNum 0) os)))"
    using zero by (rule plain_fmupd) simp_all
  then have "plain (JObj (fmupd ''playerVars'' (JObj (neutral_vars os))
      (fmupd ''width'' (JNum 0) (fmupd ''height'' (JNum 0) os))))"
    using vars by (rule plain_fmupd) simp_all
  then show ?thesis
    by (simp only: filterResetOptions_def neutral_vars_def)
qed


lemma shouldResetPlayer_plain:
  assumes "plain (JObj (opts prevProps))" and "plain (JObj (opts nextProps))"
  shows "shouldResetPlayer call prevProps nextProps =
           Inr (videoId prevProps \<noteq> videoId nextProps
                \<or> filterResetOptions (opts prevProps) \<noteq> filterResetOptions (opts nextProps))"
proof -
  have "isEqual call (JObj (filterResetOptions (opts prevProps)))
                     (JObj (filterResetOptions (opts nextProps)))
      = Inr (JObj (filterResetOptions (opts prevProps)) = JObj (filterResetOptions (opts nextProps)))"
    using assms by (intro isEqual_plain plain_filterResetOptions)
  then show ?thesis
    by (simp add: shouldResetPlayer_def strict_neq_js_of)
qed


lemma plain_with_vars:
  assumes "plain (JObj pv)"
  shows "plain (JObj (opts (with_vars pv)))"
proof -
  have eq: "opts (with_vars pv) = fmupd ''playerVars'' (JObj pv) fmempty"
    by (simp add: with_vars_def)
  have "plain (JObj (fmupd ''playerVars'' (JObj pv) fmempty))"
    using plain_empty assms by (rule plain_fmupd) simp_all
  then show ?thesis
    by (simp only: eq)
qed

text \<open>An own \<^verbatim>\<open>valueOf\<close> that is a number makes the comparison throw.\<close>

lemma shouldResetPlayer_own_valueOf:
  assumes "videoId prevProps = videoId nextProps"
    and "fmlookup (opts prevProps) ''constructor'' = None"
    and "fmlookup (opts nextProps) ''constructor'' = None"
    and "fmlookup (opts prevProps) ''valueOf'' = Some (JNum x)"
  shows "shouldResetPlayer call prevProps nextProps = Inl TypeError"
proof -
  have "\<not> constructor_differs (filterResetOptions (opts prevProps)) (filterResetOptions (opts nextProps))"
    using assms(2,3) by (simp add: constructor_differs_def filterResetOptions_def)
  moreover have v: "fmlookup (filterResetOptions (opts prevProps)) ''valueOf'' = Some (JNum x)"
    using assms(4) by (simp add: filterResetOptions_def)
  moreover have "''valueOf'' |\<in>| fmdom (filterResetOptions (opts prevProps))"
    using v by (simp only: fmlookup_dom_iff) blast
  moreover have "same_valueOf call (filterResetOptions (opts prevProps)) (filterResetOptions (opts nextProps)) = Inl TypeError"
    using v by (simp add: same_valueOf_def method_result_def)
  ultimately have "equal_objects call (filterResetOptions (opts prevProps)) (filterResetOptions (opts nextProps)) cmp = Inl TypeError" for cmp
    by (simp add: equal_objects_def)
  then show ?thesis
    using assms(1) by (simp add: shouldResetPlayer_def strict_neq_js_of)
qed

text \<open>
  An own \<^verbatim>\<open>toString\<close> that is a function decides the comparison by what it returns;
  here every function returns \<^verbatim>\<open>undefined\<close>.
\<close>

lemma shouldResetPlayer_own_toString:
  assumes "videoId prevProps = videoId nextProps"
    and "fmlookup (opts prevProps) ''constructor'' = None"
    and "fmlookup (opts nextProps) ''constructor'' = None"
    and "fmlookup (opts prevProps) ''valueOf'' = None"
    and "fmlookup (opts prevProps) ''toString'' = Some (JFun f)"
    and "fmlookup (opts nextProps) ''toString'' = Some (JFun g)"
  shows "shouldResetPlayer no_calls prevProps nextProps = Inr False"
proof -
  let ?a = "filterResetOptions (opts prevProps)" and ?b = "filterResetOptions (opts nextProps)"
  have "\<not> constructor_differs ?a ?b"
    using assms(2,3) by (simp add: constructor_differs_def filterResetOptions_def)
  moreover have "fmlookup ?a ''valueOf'' = None"
    using assms(4) by (simp add: filterResetOptions_def)
  then have "''valueOf'' |\<notin>| fmdom ?a"
    by (rule fmdom_notI)
  moreover have a: "fmlookup ?a ''toString'' = Some (JFun f)"
    using assms(5) by (simp add: filterResetOptions_def)
  moreover have b: "fmlookup ?b ''toString'' = Some (JFun g)"
    using assms(6) by (simp add: filterResetOptions_def)
  moreover have "''toString'' |\<in>| fmdom ?a"
    using a by (simp only: fmlookup_dom_iff) blast
  moreover have "same_toString no_calls ?a ?b = Inr True"
    using a b by (simp add: same_toString_def method_result_def no_calls_def strict_neq_def)
  ultimately have "equal_objects no_calls ?a ?b cmp = Inr True" for cmp
    by (simp add: equal_objects_def)
  then show ?thesis
    using assms(1) by (simp add: shouldResetPlayer_def strict_neq_js_of)
qed

subsection \<open>The predicates, without the operators\<close>

lemma shouldUpdateVideo_iff:
  "shouldUpdateVideo prevProps nextProps \<longleftrightarrow>
     videoId prevProps \<noteq> videoId nextProps
     \<or> strict_neq (get (player_vars (opts prevProps)) ''start'')
                   (get (player_vars (opts nextProps)) ''start'')
     \<or> strict_neq (get (player_vars (opts prevProps)) ''end'')
                   (get (player_vars (opts nextProps)) ''end'')"
  by (simp add: shouldUpdateVideo_def strict_neq_js_of member_vars_of player_vars_def Let_def)

lemma shouldUpdatePlayer_iff:
  "shouldUpdatePlayer prevProps nextProps \<longleftrightarrow>
     id_prop prevProps \<noteq> id_prop nextProps
     \<or> className prevProps \<noteq> className nextProps
     \<or> strict_neq (get (opts prevProps) ''width'') (get (opts nextProps) ''width'')
     \<or> strict_neq (get (opts prevProps) ''height'') (get (opts nextProps) ''height'')
     \<or> title prevProps \<noteq> title nextProps"
  by (simp add: shouldUpdatePlayer_def strict_neq_js_of)

lemma unchanged_vars_no_video_update:
  assumes "videoId prevProps = videoId nextProps"
    and "fmlookup (opts prevProps) ''playerVars'' = fmlookup (opts nextProps) ''playerVars''"
    and "get (player_vars (opts nextProps)) ''start'' \<noteq> JNaN"
    and "get (player_vars (opts nextProps)) ''end'' \<noteq> JNaN"
  shows "\<not> shouldUpdateVideo prevProps nextProps"
proof -
  have "player_vars (opts prevProps) = player_vars (opts nextProps)"
    using assms(2) by (simp add: player_vars_def get_def)
  then show ?thesis
    using assms(1,3,4) by (simp add: shouldUpdateVideo_iff strict_neq_same)
qed

subsection \<open>Calls on the handle\<close>

lemma player_call_unfold:
  "player_call c s =
     (case internalPlayer s of
        None \<Rightarrow> s
      | Some pl \<Rightarrow> s\<lparr>internalPlayer := Some (pl\<lparr>calls := calls pl @ [c]\<rparr>)\<rparr>)"
  by (simp add: player_call_def)

lemma props_player_call_then: "props (player_call_then c k s) = props s"
  by (simp add: player_call_then_def split: option.split)

lemma props_mounted: "props (mounted p) = p"
  by (simp add: eval_defs)

lemma updatePlayer_unfold:
  "updatePlayer s =
     (case internalPlayer s of
        None \<Rightarrow> s
      | Some pl \<Rightarrow> s\<lparr>internalPlayer := Some (pl\<lparr>calls := calls pl @ [GetIframe]\<rparr>),
                     pending := pending s @ [ThenSetIframeAttributes]\<rparr>)"
  by (simp add: updatePlayer_def player_call_then_def)


lemma props_updatePlayer: "props (updatePlayer s) = props s"
  by (simp add: updatePlayer_def props_player_call_then)

subsection \<open>Reset and video update\<close>



text \<open>
  Claim C1, amended. Take two props whose options are plain (no key \<^verbatim>\<open>constructor\<close>,
  \<^verbatim>\<open>valueOf\<close> or \<^verbatim>\<open>toString\<close> of their own, at any depth), with the same video
  identifier, the same options apart from \<^verbatim>\<open>playerVars\<close>, and the same player variables
  apart from \<^verbatim>\<open>start\<close> and \<^verbatim>\<open>end\<close>, whose \<^verbatim>\<open>start\<close> values or whose \<^verbatim>\<open>end\<close> values
  differ. Then \<^verbatim>\<open>shouldResetPlayer\<close> returns false and \<^verbatim>\<open>shouldUpdateVideo\<close> returns true.
  The values that differ are the values read: a key that is absent reads as
  \<^verbatim>\<open>undefined\<close>.
\<close>

theorem trim_change_updates_video_without_reset:
  assumes plain_prev: "plain (JObj (opts prevProps))"
    and plain_next: "plain (JObj (opts nextProps))"
    and vid: "videoId prevProps = videoId nextProps"
    and top: "fmdrop ''playerVars'' (opts prevProps) = fmdrop ''playerVars'' (opts nextProps)"
    and rest: "fmdrop ''start'' (fmdrop ''end'' (player_vars (opts prevProps)))
             = fmdrop ''start'' (fmdrop ''end'' (player_vars (opts nextProps)))"
    and trim: "get (player_vars (opts prevProps)) ''start''
                 \<noteq> get (player_vars (opts nextProps)) ''start''
             \<or> get (player_vars (opts prevProps)) ''end''
                 \<noteq> get (player_vars (opts nextProps)) ''end''"
  shows "shouldResetPlayer call prevProps nextProps = Inr False
       \<and> shouldUpdateVideo prevProps nextProps"
proof
  have "filterResetOptions (opts prevProps) = filterResetOptions (opts nextProps)"
  proof (rule filterResetOptions_eqI)
    fix k :: string
    assume "k \<noteq> ''playerVars''"
    then show "fmlookup (opts prevProps) k = fmlookup (opts nextProps) k"
      using top by (rule fmdrop_eq_lookup [rotated])
  next
    fix k :: string
    assume k: "k \<noteq> ''start''" "k \<noteq> ''end''"
    have "fmlookup (player_vars (opts prevProps)) k = fmlookup (player_vars (opts nextProps)) k"
      using rest k by (rule fmdrop2_eq_lookup)
    then show "fmlookup (spread (get (opts prevProps) ''playerVars'')) k
             = fmlookup (spread (get (opts nextProps) ''playerVars'')) k"
      by (simp add: player_vars_def)
  qed
  then show "shouldResetPlayer call prevProps nextProps = Inr False"
    using vid by (simp add: shouldResetPlayer_plain [OF plain_prev plain_next])
  show "shouldUpdateVideo prevProps nextProps"
    using trim by (auto simp add: shouldUpdateVideo_iff strict_neq_def)
qed

theorem trim_change_witness:
  "shouldResetPlayer no_calls (with_vars (fmupd ''start'' (JNum 10) fmempty))
                              (with_vars (fmupd ''start'' (JNum 20) fmempty)) = Inr False
   \<and> shouldUpdateVideo (with_vars (fmupd ''start'' (JNum 10) fmempty))
                        (with_vars (fmupd ''start'' (JNum 20) fmempty))"
proof (rule trim_change_updates_video_without_reset)
  show "plain (JObj (opts (with_vars (fmupd ''start'' (JNum 10) fmempty))))"
    by (rule plain_with_vars, rule plain_fmupd) simp_all
  show "plain (JObj (opts (with_vars (fmupd ''start'' (JNum 20) fmempty))))"
    by (rule plain_with_vars, rule plain_fmupd) simp_all
qed (simp_all add: with_vars_def defaultProps_def player_vars_def get_def fmdrop_fmupd)

text \<open>
  Claim C1 as it was stated fails where the options have a key \<^verbatim>\<open>constructor\<close> of their
  own that holds \<^verbatim>\<open>NaN\<close>: the two props below differ in \<^verbatim>\<open>start\<close> only, and
  \<^verbatim>\<open>shouldResetPlayer\<close> returns true, because \<^verbatim>\<open>fast-deep-equal\<close> first tests
  \<^verbatim>\<open>a.constructor !== b.constructor\<close>.
\<close>

theorem trim_change_with_own_constructor:
  "videoId (defaultProps\<lparr>opts := fmupd ''constructor'' JNaN
       (fmupd ''playerVars'' (JObj (fmupd ''start'' (JNum 1) fmempty)) fmempty)\<rparr>)
     = videoId (defaultProps\<lparr>opts := fmupd ''constructor'' JNaN
       (fmupd ''playerVars'' (JObj (fmupd ''start'' (JNum 2) fmempty)) fmempty)\<rparr>)
   \<and> fmdrop ''playerVars'' (opts (defaultProps\<lparr>opts := fmupd ''constructor'' JNaN
       (fmupd ''playerVars'' (JObj (fmupd ''start'' (JNum 1) fmempty)) fmempty)\<rparr>))
     = fmdrop ''playerVars'' (opts (defaultProps\<lparr>opts := fmupd ''constructor'' JNaN
       (fmupd ''playerVars'' (JObj (fmupd ''start'' (JNum 2) fmempty)) fmempty)\<rparr>))
   \<and> fmdrop ''start'' (fmdrop ''end'' (player_vars (opts (defaultProps\<lparr>opts :=
       fmupd ''constructor'' JNaN
         (fmupd ''playerVars'' (JObj (fmupd ''start'' (JNum 1) fmempty)) fmempty)\<rparr>))))
     = fmdrop ''start'' (fmdrop ''end'' (player_vars (opts (defaultProps\<lparr>opts :=
       fmupd ''constructor'' JNaN
         (fmupd ''playerVars'' (JObj (fmupd ''start'' (JNum 2) fmempty)) fmempty)\<rparr>))))
   \<and> get (player_vars (opts (defaultProps\<lparr>opts := fmupd ''constructor'' JNaN
       (fmupd ''playerVars'' (JObj (fmupd ''start'' (JNum 1) fmempty)) fmempty)\<rparr>))) ''start''
     \<noteq> get (player_vars (opts (defaultProps\<lparr>opts := fmupd ''constructor'' JNaN
       (fmupd ''playerVars'' (JObj (fmupd ''start'' (JNum 2) fmempty)) fmempty)\<rparr>))) ''start''
   \<and> shouldResetPlayer no_calls
       (defaultProps\<lparr>opts := fmupd ''constructor'' JNaN
         (fmupd ''playerVars'' (JObj (fmupd ''start'' (JNum 1) fmempty)) fmempty)\<rparr>)
       (defaultProps\<lparr>opts := fmupd ''constructor'' JNaN
         (fmupd ''playerVars'' (JObj (fmupd ''start'' (JNum 2) fmempty)) fmempty)\<rparr>)
     = Inr True"
  by (simp add: defaultProps_def player_vars_def get_def fmdrop_fmupd shouldResetPlayer_def
      filterResetOptions_def equal_objects_def constructor_differs_def strict_neq_def)

text \<open>
  Claim C2, amended. Take two props whose options are plain, and whose options differ
  under a key other than \<^verbatim>\<open>width\<close>, \<^verbatim>\<open>height\<close> and \<^verbatim>\<open>playerVars\<close>, or whose player
  variables differ under a key other than \<^verbatim>\<open>autoplay\<close>, \<^verbatim>\<open>start\<close> and \<^verbatim>\<open>end\<close>. Then the
  two snapshots that \<^verbatim>\<open>filterResetOptions\<close> makes are still unequal, and
  \<^verbatim>\<open>shouldResetPlayer\<close> returns true.
\<close>

theorem other_option_change_resets:
  assumes plain_prev: "plain (JObj (opts prevProps))"
    and plain_next: "plain (JObj (opts nextProps))"
    and differ: "(\<exists>k. k \<notin> {''width'', ''height'', ''playerVars''}
                \<and> fmlookup (opts prevProps) k \<noteq> fmlookup (opts nextProps) k)
         \<or> (\<exists>k. k \<notin> {''autoplay'', ''start'', ''end''}
                \<and> fmlookup (player_vars (opts prevProps)) k
                    \<noteq> fmlookup (player_vars (opts nextProps)) k)"
  shows "filterResetOptions (opts prevProps) \<noteq> filterResetOptions (opts nextProps)
         \<and> shouldResetPlayer call prevProps nextProps = Inr True"
proof -
  have "filterResetOptions (opts prevProps) \<noteq> filterResetOptions (opts nextProps)"
  proof
    assume eq: "filterResetOptions (opts prevProps) = filterResetOptions (opts nextProps)"
    from differ show False
    proof
      assume "\<exists>k. k \<notin> {''width'', ''height'', ''playerVars''}
                \<and> fmlookup (opts prevProps) k \<noteq> fmlookup (opts nextProps) k"
      then obtain k where "k \<noteq> ''width''" "k \<noteq> ''height''" "k \<noteq> ''playerVars''"
        and "fmlookup (opts prevProps) k \<noteq> fmlookup (opts nextProps) k"
        by auto
      then show False
        using filterResetOptions_eqD_top [OF eq, of k] by simp
    next
      assume "\<exists>k. k \<notin> {''autoplay'', ''start'', ''end''}
                \<and> fmlookup (player_vars (opts prevProps)) k
                    \<noteq> fmlookup (player_vars (opts nextProps)) k"
      then obtain k where "k \<noteq> ''autoplay''" "k \<noteq> ''start''" "k \<noteq> ''end''"
        and "fmlookup (player_vars (opts prevProps)) k
               \<noteq> fmlookup (player_vars (opts nextProps)) k"
        by auto
      then show False
        using filterResetOptions_eqD_vars [OF eq, of k] by (simp add: player_vars_def)
    qed
  qed
  then show ?thesis
    by (simp add: shouldResetPlayer_plain [OF plain_prev plain_next])
qed

theorem other_option_change_resets_witness:
  "filterResetOptions (opts (with_vars (fmupd ''controls'' (JNum 0) fmempty)))
     \<noteq> filterResetOptions (opts (with_vars (fmupd ''controls'' (JNum 1) fmempty)))
   \<and> shouldResetPlayer no_calls (with_vars (fmupd ''controls'' (JNum 0) fmempty))
                                 (with_vars (fmupd ''controls'' (JNum 1) fmempty)) = Inr True"
proof (rule other_option_change_resets)
  show "plain (JObj (opts (with_vars (fmupd ''controls'' (JNum 0) fmempty))))"
    by (rule plain_with_vars, rule plain_fmupd) simp_all
  show "plain (JObj (opts (with_vars (fmupd ''controls'' (JNum 1) fmempty))))"
    by (rule plain_with_vars, rule plain_fmupd) simp_all
  have "''controls'' \<notin> {''autoplay'', ''start'', ''end''} \<and>
    fmlookup (player_vars (opts (with_vars (fmupd ''controls'' (JNum 0) fmempty)))) ''controls''
    \<noteq> fmlookup (player_vars (opts (with_vars (fmupd ''controls'' (JNum 1) fmempty)))) ''controls''"
    by (simp add: with_vars_def defaultProps_def player_vars_def get_def)
  then show "(\<exists>k. k \<notin> {''width'', ''height'', ''playerVars''}
        \<and> fmlookup (opts (with_vars (fmupd ''controls'' (JNum 0) fmempty))) k
          \<noteq> fmlookup (opts (with_vars (fmupd ''controls'' (JNum 1) fmempty))) k)
    \<or> (\<exists>k. k \<notin> {''autoplay'', ''start'', ''end''}
        \<and> fmlookup (player_vars (opts (with_vars (fmupd ''controls'' (JNum 0) fmempty)))) k
          \<noteq> fmlookup (player_vars (opts (with_vars (fmupd ''controls'' (JNum 1) fmempty)))) k)"
    by (intro disjI2 exI [of _ "''controls''"])
qed

text \<open>
  Claim C2 as it was stated fails where the options have a function \<^verbatim>\<open>toString\<close> of
  their own: the two props below differ in \<^verbatim>\<open>host\<close>, and \<^verbatim>\<open>shouldResetPlayer\<close> returns
  false, because \<^verbatim>\<open>fast-deep-equal\<close> then compares \<^verbatim>\<open>a.toString()\<close> with
  \<^verbatim>\<open>b.toString()\<close> and nothing else.
\<close>

theorem host_change_with_own_toString:
  "''host'' \<notin> {''width'', ''height'', ''playerVars''}
   \<and> fmlookup (opts (defaultProps\<lparr>opts :=
         fmupd ''toString'' (JFun 9) (fmupd ''host'' (JStr ''a'') fmempty)\<rparr>)) ''host''
     \<noteq> fmlookup (opts (defaultProps\<lparr>opts :=
         fmupd ''toString'' (JFun 9) (fmupd ''host'' (JStr ''b'') fmempty)\<rparr>)) ''host''
   \<and> shouldResetPlayer no_calls
       (defaultProps\<lparr>opts := fmupd ''toString'' (JFun 9) (fmupd ''host'' (JStr ''a'') fmempty)\<rparr>)
       (defaultProps\<lparr>opts := fmupd ''toString'' (JFun 9) (fmupd ''host'' (JStr ''b'') fmempty)\<rparr>)
     = Inr False"
proof -
  have "shouldResetPlayer no_calls
       (defaultProps\<lparr>opts := fmupd ''toString'' (JFun 9) (fmupd ''host'' (JStr ''a'') fmempty)\<rparr>)
       (defaultProps\<lparr>opts := fmupd ''toString'' (JFun 9) (fmupd ''host'' (JStr ''b'') fmempty)\<rparr>)
     = Inr False"
    by (rule shouldResetPlayer_own_toString [where f = 9 and g = 9])
       (simp_all add: defaultProps_def)
  then show ?thesis
    by (simp add: defaultProps_def)
qed

subsection \<open>Appearance update, and an update that changes nothing\<close>

text \<open>
  Claim C3, amended. Take an update whose previous and next props have plain options,
  the same video identifier and the same options apart from \<^verbatim>\<open>width\<close> and \<^verbatim>\<open>height\<close>,
  and differ in \<^verbatim>\<open>id\<close>, \<^verbatim>\<open>className\<close>, \<^verbatim>\<open>width\<close>, \<^verbatim>\<open>height\<close> or \<^verbatim>\<open>title\<close>; let neither
  \<^verbatim>\<open>start\<close> nor \<^verbatim>\<open>end\<close> of the player variables be \<^verbatim>\<open>NaN\<close>. Then \<^verbatim>\<open>shouldUpdatePlayer\<close>
  returns true, \<^verbatim>\<open>shouldResetPlayer\<close> and \<^verbatim>\<open>shouldUpdateVideo\<close> return false, and
  \<^verbatim>\<open>componentDidUpdate\<close> does what \<^verbatim>\<open>updatePlayer\<close> does and no more: with a handle, the
  one call \<^verbatim>\<open>getIframe()\<close> and its continuation; no \<^verbatim>\<open>destroy()\<close>, no call of the
  factory.
\<close>

theorem appearance_change_only_updates_player:
  assumes plain_prev: "plain (JObj (opts prevProps))"
    and plain_next: "plain (JObj (opts (props s)))"
    and vid: "videoId prevProps = videoId (props s)"
    and rest: "fmdrop ''width'' (fmdrop ''height'' (opts prevProps))
             = fmdrop ''width'' (fmdrop ''height'' (opts (props s)))"
    and diff: "id_prop prevProps \<noteq> id_prop (props s)
             \<or> className prevProps \<noteq> className (props s)
             \<or> get (opts prevProps) ''width'' \<noteq> get (opts (props s)) ''width''
             \<or> get (opts prevProps) ''height'' \<noteq> get (opts (props s)) ''height''
             \<or> title prevProps \<noteq> title (props s)"
    and start: "get (player_vars (opts (props s))) ''start'' \<noteq> JNaN"
    and end_: "get (player_vars (opts (props s))) ''end'' \<noteq> JNaN"
  shows "shouldUpdatePlayer prevProps (props s)
       \<and> shouldResetPlayer call prevProps (props s) = Inr False
       \<and> \<not> shouldUpdateVideo prevProps (props s)
       \<and> componentDidUpdate call prevProps s =
           Inr (case internalPlayer s of
                  None \<Rightarrow> s
                | Some pl \<Rightarrow> s\<lparr>internalPlayer := Some (pl\<lparr>calls := calls pl @ [GetIframe]\<rparr>),
                               pending := pending s @ [ThenSetIframeAttributes]\<rparr>)"
proof -
  have other: "fmlookup (opts prevProps) k = fmlookup (opts (props s)) k"
    if "k \<noteq> ''width''" "k \<noteq> ''height''" for k
    using rest that by (rule fmdrop2_eq_lookup)
  have up: "shouldUpdatePlayer prevProps (props s)"
    using diff by (auto simp add: shouldUpdatePlayer_iff strict_neq_def)
  have "filterResetOptions (opts prevProps) = filterResetOptions (opts (props s))"
  proof (rule filterResetOptions_eqI)
    fix k :: string
    assume "k \<noteq> ''width''" "k \<noteq> ''height''"
    then show "fmlookup (opts prevProps) k = fmlookup (opts (props s)) k"
      by (rule other)
  next
    fix k :: string
    have "fmlookup (opts prevProps) ''playerVars'' = fmlookup (opts (props s)) ''playerVars''"
      by (rule other) simp_all
    then show "fmlookup (spread (get (opts prevProps) ''playerVars'')) k
             = fmlookup (spread (get (opts (props s)) ''playerVars'')) k"
      by (simp add: get_def)
  qed
  then have reset: "shouldResetPlayer call prevProps (props s) = Inr False"
    using vid by (simp add: shouldResetPlayer_plain [OF plain_prev plain_next])
  have "fmlookup (opts prevProps) ''playerVars'' = fmlookup (opts (props s)) ''playerVars''"
    by (rule other) simp_all
  with vid have video: "\<not> shouldUpdateVideo prevProps (props s)"
    using start end_ by (rule unchanged_vars_no_video_update)
  have "componentDidUpdate call prevProps s = Inr (updatePlayer s)"
    using up reset video
    by (simp add: componentDidUpdate_def props_updatePlayer)
  then show ?thesis
    using up reset video by (simp add: updatePlayer_unfold)
qed

theorem appearance_change_witness:
  "shouldUpdatePlayer (defaultProps\<lparr>title := Str ''old''\<rparr>) (props (mounted defaultProps))
   \<and> shouldResetPlayer no_calls (defaultProps\<lparr>title := Str ''old''\<rparr>)
         (props (mounted defaultProps)) = Inr False
   \<and> \<not> shouldUpdateVideo (defaultProps\<lparr>title := Str ''old''\<rparr>) (props (mounted defaultProps))
   \<and> componentDidUpdate no_calls (defaultProps\<lparr>title := Str ''old''\<rparr>) (mounted defaultProps) =
       Inr (case internalPlayer (mounted defaultProps) of
              None \<Rightarrow> mounted defaultProps
            | Some pl \<Rightarrow>
                (mounted defaultProps)
                  \<lparr>internalPlayer := Some (pl\<lparr>calls := calls pl @ [GetIframe]\<rparr>),
                   pending := pending (mounted defaultProps) @ [ThenSetIframeAttributes]\<rparr>)"
  by (rule appearance_change_only_updates_player) (simp_all add: eval_defs)

text \<open>
  Claim C3 as it was stated fails where \<^verbatim>\<open>start\<close> is \<^verbatim>\<open>NaN\<close> on both sides: the two props
  below have the same video identifier and the same options, only their titles differ,
  and \<^verbatim>\<open>shouldUpdateVideo\<close> returns true, since \<^verbatim>\<open>NaN !== NaN\<close>.
\<close>

theorem appearance_change_with_nan_start:
  "videoId ((with_vars (fmupd ''start'' JNaN fmempty))\<lparr>title := Str ''old''\<rparr>)
     = videoId (with_vars (fmupd ''start'' JNaN fmempty))
   \<and> opts ((with_vars (fmupd ''start'' JNaN fmempty))\<lparr>title := Str ''old''\<rparr>)
     = opts (with_vars (fmupd ''start'' JNaN fmempty))
   \<and> title ((with_vars (fmupd ''start'' JNaN fmempty))\<lparr>title := Str ''old''\<rparr>)
     \<noteq> title (with_vars (fmupd ''start'' JNaN fmempty))
   \<and> shouldUpdateVideo ((with_vars (fmupd ''start'' JNaN fmempty))\<lparr>title := Str ''old''\<rparr>)
        (with_vars (fmupd ''start'' JNaN fmempty))"
  by (simp add: with_vars_def defaultProps_def shouldUpdateVideo_def vars_of_def get_def
      strict_neq_def)

text \<open>
  Claim C9, amended. For every props whose options are plain and whose \<^verbatim>\<open>width\<close>,
  \<^verbatim>\<open>height\<close>, \<^verbatim>\<open>start\<close> and \<^verbatim>\<open>end\<close> are not \<^verbatim>\<open>NaN\<close>, each of the three predicates
  returns false on the pair of these props with themselves, and \<^verbatim>\<open>componentDidUpdate\<close>
  leaves the component as it was: no call on the handle, no continuation, no call of
  the factory.
\<close>

theorem unchanged_props_issue_nothing:
  assumes plain_opts: "plain (JObj (opts (props s)))"
    and "get (opts (props s)) ''width'' \<noteq> JNaN"
    and "get (opts (props s)) ''height'' \<noteq> JNaN"
    and "get (player_vars (opts (props s))) ''start'' \<noteq> JNaN"
    and "get (player_vars (opts (props s))) ''end'' \<noteq> JNaN"
  shows "\<not> shouldUpdatePlayer (props s) (props s)
       \<and> shouldResetPlayer call (props s) (props s) = Inr False
       \<and> \<not> shouldUpdateVideo (props s) (props s)
       \<and> componentDidUpdate call (props s) s = Inr s"
proof -
  have up: "\<not> shouldUpdatePlayer (props s) (props s)"
    using assms(2,3) by (simp add: shouldUpdatePlayer_iff strict_neq_same)
  have reset: "shouldResetPlayer call (props s) (props s) = Inr False"
    by (simp add: shouldResetPlayer_plain [OF plain_opts plain_opts])
  have video: "\<not> shouldUpdateVideo (props s) (props s)"
    using assms(4,5) by (simp add: shouldUpdateVideo_iff strict_neq_same)
  show ?thesis
    using up reset video by (simp add: componentDidUpdate_def)
qed

theorem unchanged_props_witness:
  "\<not> shouldUpdatePlayer (props (mounted (with_vars (fmupd ''start'' (JNum 10) fmempty))))
        (props (mounted (with_vars (fmupd ''start'' (JNum 10) fmempty))))
   \<and> shouldResetPlayer no_calls (props (mounted (with_vars (fmupd ''start'' (JNum 10) fmempty))))
        (props (mounted (with_vars (fmupd ''start'' (JNum 10) fmempty)))) = Inr False
   \<and> \<not> shouldUpdateVideo (props (mounted (with_vars (fmupd ''start'' (JNum 10) fmempty))))
        (props (mounted (with_vars (fmupd ''start'' (JNum 10) fmempty))))
   \<and> componentDidUpdate no_calls (props (mounted (with_vars (fmupd ''start'' (JNum 10) fmempty))))
        (mounted (with_vars (fmupd ''start'' (JNum 10) fmempty)))
      = Inr (mounted (with_vars (fmupd ''start'' (JNum 10) fmempty)))"
proof (rule unchanged_props_issue_nothing)
  have "plain (JObj (opts (with_vars (fmupd ''start'' (JNum 10) fmempty))))"
    by (rule plain_with_vars, rule plain_fmupd) simp_all
  then show "plain (JObj (opts (props (mounted (with_vars (fmupd ''start'' (JNum 10) fmempty))))))"
    by (simp only: props_mounted)
qed (simp_all add: eval_defs with_vars_def)

text \<open>
  Claim C9 as it was stated fails at props whose \<^verbatim>\<open>start\<close> is \<^verbatim>\<open>NaN\<close>: on these props
  and themselves \<^verbatim>\<open>shouldUpdateVideo\<close> returns true, and \<^verbatim>\<open>componentDidUpdate\<close> of a
  mounted component cues the video again.
\<close>

theorem unchanged_nan_start_updates_video:
  "shouldUpdateVideo (with_vars (fmupd ''start'' JNaN fmempty))
                     (with_vars (fmupd ''start'' JNaN fmempty))
   \<and> componentDidUpdate no_calls (with_vars (fmupd ''start'' JNaN fmempty))
        (mounted (with_vars (fmupd ''start'' JNaN fmempty)))
      = Inr (player_call
               (CueVideoById
                 (fmupd ''startSeconds'' JNaN (fmupd ''videoId'' (JStr ''abc'') fmempty)))
               (mounted (with_vars (fmupd ''start'' JNaN fmempty))))"
proof -
  let ?p = "with_vars (fmupd ''start'' JNaN fmempty)"
  have video: "shouldUpdateVideo ?p ?p"
    by (simp add: with_vars_def defaultProps_def shouldUpdateVideo_def vars_of_def get_def
        strict_neq_def)
  have up: "\<not> shouldUpdatePlayer ?p ?p"
    by (simp add: shouldUpdatePlayer_iff strict_neq_same with_vars_def defaultProps_def get_def)
  have "plain (JObj (opts ?p))"
    by (rule plain_with_vars, rule plain_fmupd) simp_all
  then have reset: "shouldResetPlayer no_calls ?p ?p = Inr False"
    by (simp add: shouldResetPlayer_plain)
  have "updateVideo (mounted ?p)
      = Inr (player_call
               (CueVideoById
                 (fmupd ''startSeconds'' JNaN (fmupd ''videoId'' (JStr ''abc'') fmempty)))
               (mounted ?p))"
    by (simp add: updateVideo_def queueing_options_def props_mounted)
       (simp add: with_vars_def defaultProps_def get_def)
  then show ?thesis
    using video up reset by (simp add: componentDidUpdate_def props_mounted)
qed

subsection \<open>Event relay and the table of states\<close>

text \<open>
  Claim C5. With its callbacks in place, \<^verbatim>\<open>onPlayerStateChange\<close> calls \<^verbatim>\<open>onStateChange\<close>
  first, on every event; then \<^verbatim>\<open>onEnd\<close> and nothing else when the event carries 0,
  \<^verbatim>\<open>onPlay\<close> when it carries 1, \<^verbatim>\<open>onPause\<close> when it carries 2, and nothing when it
  carries anything else, such as -1, 3 or 5. The table \<^verbatim>\<open>PlayerState\<close> holds
  UNSTARTED = -1, ENDED = 0, PLAYING = 1, PAUSED = 2, BUFFERING = 3, CUED = 5.
\<close>

theorem state_change_relay:
  assumes "onStateChange p = Some sc" and "onEnd p = Some en"
    and "onPlay p = Some pl" and "onPause p = Some pa"
  shows "(data e = JNum 0 \<longrightarrow> onPlayerStateChange p e = [(sc, e), (en, e)])
       \<and> (data e = JNum 1 \<longrightarrow> onPlayerStateChange p e = [(sc, e), (pl, e)])
       \<and> (data e = JNum 2 \<longrightarrow> onPlayerStateChange p e = [(sc, e), (pa, e)])
       \<and> (data e = JNum (- 1) \<or> data e = JNum 3 \<or> data e = JNum 5
            \<longrightarrow> onPlayerStateChange p e = [(sc, e)])
       \<and> (data e \<noteq> JNum 0 \<and> data e \<noteq> JNum 1 \<and> data e \<noteq> JNum 2
            \<longrightarrow> onPlayerStateChange p e = [(sc, e)])
       \<and> UNSTARTED = - 1 \<and> ENDED = 0 \<and> PLAYING = 1 \<and> PAUSED = 2 \<and> BUFFERING = 3 \<and> CUED = 5"
  using assms
  by (auto simp add: onPlayerStateChange_def UNSTARTED_def ENDED_def PLAYING_def PAUSED_def
      BUFFERING_def CUED_def)

theorem state_change_relay_witness:
  "onPlayerStateChange defaultProps \<lparr>data = JNum 0\<rparr>
     = [(5, \<lparr>data = JNum 0\<rparr>), (4, \<lparr>data = JNum 0\<rparr>)]
   \<and> onPlayerStateChange defaultProps \<lparr>data = JNum 1\<rparr>
     = [(5, \<lparr>data = JNum 1\<rparr>), (2, \<lparr>data = JNum 1\<rparr>)]
   \<and> onPlayerStateChange defaultProps \<lparr>data = JNum 2\<rparr>
     = [(5, \<lparr>data = JNum 2\<rparr>), (3, \<lparr>data = JNum 2\<rparr>)]
   \<and> onPlayerStateChange defaultProps \<lparr>data = JNum 3\<rparr>
     = [(5, \<lparr>data = JNum 3\<rparr>)]"
proof -
  have h: "onStateChange defaultProps = Some 5" "onEnd defaultProps = Some 4"
    "onPlay defaultProps = Some 2" "onPause defaultProps = Some 3"
    by (simp_all add: defaultProps_def)
  note relay = state_change_relay [OF h]
  have ended: "onPlayerStateChange defaultProps \<lparr>data = JNum 0\<rparr>
      = [(5, \<lparr>data = JNum 0\<rparr>), (4, \<lparr>data = JNum 0\<rparr>)]"
    by (rule relay [THEN conjunct1, THEN mp]) simp
  have playing: "onPlayerStateChange defaultProps \<lparr>data = JNum 1\<rparr>
      = [(5, \<lparr>data = JNum 1\<rparr>), (2, \<lparr>data = JNum 1\<rparr>)]"
    by (rule relay [THEN conjunct2, THEN conjunct1, THEN mp]) simp
  have paused: "onPlayerStateChange defaultProps \<lparr>data = JNum 2\<rparr>
      = [(5, \<lparr>data = JNum 2\<rparr>), (3, \<lparr>data = JNum 2\<rparr>)]"
    by (rule relay [THEN conjunct2, THEN conjunct2, THEN conjunct1, THEN mp]) simp
  have buffering: "onPlayerStateChange defaultProps \<lparr>data = JNum 3\<rparr>
      = [(5, \<lparr>data = JNum 3\<rparr>)]"
    by (rule relay [THEN conjunct2, THEN conjunct2, THEN conjunct2, THEN conjunct1, THEN mp])
       simp
  from ended playing paused buffering show ?thesis
    by (intro conjI)
qed

subsection \<open>Creation without a document\<close>

text \<open>
  Claim C8. In an execution context without \<^verbatim>\<open>document\<close>, where there is no element to
  mount on, \<^verbatim>\<open>createPlayer\<close> returns with the component as it was: \<^verbatim>\<open>internalPlayer\<close>
  keeps its value (\<^verbatim>\<open>null\<close> since the constructor), the factory is not called and no
  listener is subscribed. Nothing is thrown: the function has no error result.
\<close>

theorem createPlayer_without_document:
  assumes "\<not> document_defined s"
  shows "createPlayer s = s
       \<and> componentDidMount s = s
       \<and> internalPlayer (createPlayer s) = internalPlayer s
       \<and> factory_calls (createPlayer s) = factory_calls s"
  using assms by (simp add: createPlayer_def componentDidMount_def)

theorem createPlayer_without_document_witness:
  "componentDidMount (new_component defaultProps False) = new_component defaultProps False
   \<and> internalPlayer (componentDidMount (new_component defaultProps False)) = None
   \<and> factory_calls (componentDidMount (new_component defaultProps False)) = []"
  using createPlayer_without_document [of "new_component defaultProps False"]
  by (simp add: new_component_def)

subsection \<open>updateVideo\<close>

text \<open>
  What \<^verbatim>\<open>updateVideo\<close> does with a video identifier that is a string: when
  \<^verbatim>\<open>playerVars\<close> is absent it cues the bare payload; when \<^verbatim>\<open>playerVars\<close> is an object it
  adds \<^verbatim>\<open>startSeconds\<close> and \<^verbatim>\<open>endSeconds\<close> for the keys that are present, and loads when
  \<^verbatim>\<open>autoplay\<close> is 1, cues otherwise; when \<^verbatim>\<open>playerVars\<close> is present and \<^verbatim>\<open>undefined\<close> or
  \<^verbatim>\<open>null\<close> it throws. With a handle, it calls \<^verbatim>\<open>stopVideo()\<close> exactly when the identifier
  is \<^verbatim>\<open>undefined\<close> or \<^verbatim>\<open>null\<close>.
\<close>

lemma queueing_options_without_vars:
  assumes "''playerVars'' |\<notin>| fmdom (opts p)"
  shows "queueing_options p = Inr (False, fmupd ''videoId'' (js_of (videoId p)) fmempty)"
  using assms by (simp add: queueing_options_def)

lemma queueing_options_object_vars:
  assumes "fmlookup (opts p) ''playerVars'' = Some (JObj pv)"
  shows "queueing_options p =
           Inr (get pv ''autoplay'' = JNum 1,
                (if ''end'' |\<in>| fmdom pv then fmupd ''endSeconds'' (get pv ''end'') else id)
                  ((if ''start'' |\<in>| fmdom pv then fmupd ''startSeconds'' (get pv ''start'')
                    else id)
                    (fmupd ''videoId'' (js_of (videoId p)) fmempty)))"
proof -
  have "''playerVars'' |\<in>| fmdom (opts p)"
    using assms by (simp add: fmlookup_dom_iff)
  moreover have "get (opts p) ''playerVars'' = JObj pv"
    using assms by (simp add: get_def)
  ultimately show ?thesis
    by (simp add: queueing_options_def)
qed

lemma queueing_options_nullish_vars:
  assumes "fmlookup (opts p) ''playerVars'' = Some JUndefined
         \<or> fmlookup (opts p) ''playerVars'' = Some JNull"
  shows "queueing_options p = Inl TypeError"
proof -
  have "''playerVars'' |\<in>| fmdom (opts p)"
    using assms by (auto simp add: fmlookup_dom_iff)
  moreover have "get (opts p) ''playerVars'' = JUndefined \<or> get (opts p) ''playerVars'' = JNull"
    using assms by (auto simp add: get_def)
  ultimately show ?thesis
    by (auto simp add: queueing_options_def)
qed

lemma updateVideo_defined_video:
  assumes "videoId (props s) = Str v"
  shows "updateVideo s =
           (case queueing_options (props s) of
              Inl e \<Rightarrow> Inl e
            | Inr (autoplay, os) \<Rightarrow>
                Inr (player_call ((if autoplay then LoadVideoById else CueVideoById) os) s))"
  using assms by (simp add: updateVideo_def split: sum.split)

lemma updateVideo_without_vars:
  assumes "videoId (props s) = Str v" and "''playerVars'' |\<notin>| fmdom (opts (props s))"
  shows "updateVideo s = Inr (player_call (CueVideoById (fmupd ''videoId'' (JStr v) fmempty)) s)"
  using assms by (simp add: updateVideo_defined_video queueing_options_without_vars)

lemma updateVideo_object_vars:
  assumes "videoId (props s) = Str v"
    and "fmlookup (opts (props s)) ''playerVars'' = Some (JObj pv)"
  shows "updateVideo s =
           Inr (player_call
                 ((if get pv ''autoplay'' = JNum 1 then LoadVideoById else CueVideoById)
                   ((if ''end'' |\<in>| fmdom pv then fmupd ''endSeconds'' (get pv ''end'') else id)
                     ((if ''start'' |\<in>| fmdom pv then fmupd ''startSeconds'' (get pv ''start'')
                       else id)
                       (fmupd ''videoId'' (JStr v) fmempty))))
                 s)"
  using assms by (simp add: updateVideo_defined_video queueing_options_object_vars)

lemma player_call_inject:
  assumes "internalPlayer s = Some pl"
  shows "player_call c s = player_call d s \<longleftrightarrow> c = d"
proof
  assume eq: "player_call c s = player_call d s"
  have after: "internalPlayer (player_call x s) = Some (pl\<lparr>calls := calls pl @ [x]\<rparr>)" for x
    using assms by (simp add: player_call_def)
  have "internalPlayer (player_call c s) = internalPlayer (player_call d s)"
    using eq by (rule arg_cong)
  then have "pl\<lparr>calls := calls pl @ [c]\<rparr> = pl\<lparr>calls := calls pl @ [d]\<rparr>"
    by (simp only: after option.inject)
  then have "calls (pl\<lparr>calls := calls pl @ [c]\<rparr>) = calls (pl\<lparr>calls := calls pl @ [d]\<rparr>)"
    by (rule arg_cong)
  then show "c = d"
    by simp
next
  assume "c = d"
  then show "player_call c s = player_call d s"
    by simp
qed

lemma updateVideo_stops_iff:
  assumes "internalPlayer s = Some pl"
  shows "updateVideo s = Inr (player_call StopVideo s)
     \<longleftrightarrow> videoId (props s) = Undefined \<or> videoId (props s) = Null"
proof (cases "videoId (props s)")
  case (Str v)
  have "updateVideo s \<noteq> Inr (player_call StopVideo s)"
  proof (cases "queueing_options (props s)")
    case (Inl e)
    then show ?thesis by (simp add: updateVideo_defined_video [OF Str])
  next
    case (Inr r)
    then show ?thesis
      by (cases r) (simp add: updateVideo_defined_video [OF Str] player_call_inject [OF assms])
  qed
  then show ?thesis using Str by simp
qed (simp_all add: updateVideo_def)

text \<open>
  Claim C6. When the video identifier is \<^verbatim>\<open>undefined\<close>, \<^verbatim>\<open>updateVideo\<close> makes the one call
  \<^verbatim>\<open>stopVideo()\<close> on the handle (on the handle if there is one, as every call of the
  component is made) and returns: no \<^verbatim>\<open>loadVideoById\<close>, no \<^verbatim>\<open>cueVideoById\<close>, whatever
  the options are.
\<close>

theorem undefined_video_stops:
  assumes "videoId (props s) = Undefined"
  shows "updateVideo s =
           Inr (case internalPlayer s of
                  None \<Rightarrow> s
                | Some pl \<Rightarrow> s\<lparr>internalPlayer := Some (pl\<lparr>calls := calls pl @ [StopVideo]\<rparr>)\<rparr>)"
  using assms by (simp add: updateVideo_def player_call_unfold)

theorem undefined_video_stops_witness:
  "updateVideo
     (mounted ((with_vars (fmupd ''autoplay'' (JNum 1) fmempty))\<lparr>videoId := Undefined\<rparr>)) =
   Inr (case internalPlayer
               (mounted ((with_vars (fmupd ''autoplay'' (JNum 1) fmempty))
                           \<lparr>videoId := Undefined\<rparr>)) of
          None \<Rightarrow>
            mounted ((with_vars (fmupd ''autoplay'' (JNum 1) fmempty))\<lparr>videoId := Undefined\<rparr>)
        | Some pl \<Rightarrow>
            (mounted ((with_vars (fmupd ''autoplay'' (JNum 1) fmempty))\<lparr>videoId := Undefined\<rparr>))
              \<lparr>internalPlayer := Some (pl\<lparr>calls := calls pl @ [StopVideo]\<rparr>)\<rparr>)"
  by (rule undefined_video_stops) (simp add: eval_defs with_vars_def)

text \<open>
  Claim C4 has \<^verbatim>\<open>updateVideo\<close> cue or load for every props with a defined video
  identifier. At the props \<^verbatim>\<open>{videoId: 'abc', opts: {playerVars: undefined}}\<close> of a
  mounted component it does neither: the key \<^verbatim>\<open>playerVars\<close> is in \<^verbatim>\<open>opts\<close>, and reading
  \<^verbatim>\<open>autoplay\<close> of \<^verbatim>\<open>undefined\<close> throws a \<^verbatim>\<open>TypeError\<close>.
\<close>

theorem updateVideo_undefined_playerVars_throws:
  "updateVideo (mounted (defaultProps\<lparr>videoId := Str ''abc'',
      opts := fmupd ''playerVars'' JUndefined fmempty\<rparr>)) = Inl TypeError"
  by (simp add: updateVideo_def queueing_options_def eval_defs)

text \<open>
  Claim C10 has every video identifier other than \<^verbatim>\<open>undefined\<close> and \<^verbatim>\<open>null\<close> produce a
  cue or a load that carries it. The default identifier, the empty string, passes the
  test of \<^verbatim>\<open>updateVideo\<close> as the claim says, and with the options
  \<^verbatim>\<open>{playerVars: undefined}\<close> the call then throws a \<^verbatim>\<open>TypeError\<close> before any command.
\<close>

theorem updateVideo_default_video_throws:
  "videoId defaultProps = Str []
   \<and> updateVideo (mounted (defaultProps\<lparr>opts := fmupd ''playerVars'' JUndefined fmempty\<rparr>))
       = Inl TypeError"
  by (simp add: updateVideo_def queueing_options_def eval_defs)

end
